theory Spec2Isabelle
  imports Main
begin

section \<open>Strings as Python sees them\<close>

text \<open>
  Python strings are modelled as lists of characters with code points below 256.
  The helpers below are the library operations the discovery code calls on them:
  \<^verbatim>\<open>str.strip()\<close>, \<^verbatim>\<open>str.lower()\<close>, \<^verbatim>\<open>str.count(c)\<close>, \<^verbatim>\<open>str.split(c)\<close>,
  \<^verbatim>\<open>str.startswith(p)\<close>, \<^verbatim>\<open>str.removeprefix(p)\<close>, \<^verbatim>\<open>str(int)\<close> and \<^verbatim>\<open>int(str)\<close>.
\<close>

definition dq :: char where
  "dq = CHR 0x22"

definition LF :: char where
  "LF = CHR 0x0A"

definition CR :: char where
  "CR = CHR 0x0D"

definition py_isspace :: "char \<Rightarrow> bool" where
  \<comment> \<open>\<^verbatim>\<open>str.isspace\<close> on code points below 256\<close>
  "py_isspace c =
     (let n = (of_char c :: nat)
      in (9 \<le> n \<and> n \<le> 13) \<or> (28 \<le> n \<and> n \<le> 32) \<or> n = 133 \<or> n = 160)"

definition lstrip :: "string \<Rightarrow> string" where
  "lstrip s = dropWhile py_isspace s"

definition rstrip :: "string \<Rightarrow> string" where
  "rstrip s = rev (dropWhile py_isspace (rev s))"

definition strip :: "string \<Rightarrow> string" where
  "strip s = rstrip (lstrip s)"

definition lower_char :: "char \<Rightarrow> char" where
  \<comment> \<open>\<^verbatim>\<open>str.lower\<close> on one code point below 256\<close>
  "lower_char c =
     (let n = (of_char c :: nat)
      in if (65 \<le> n \<and> n \<le> 90) \<or> (192 \<le> n \<and> n \<le> 222 \<and> n \<noteq> 215)
         then char_of (n + 32) else c)"

definition lower :: "string \<Rightarrow> string" where
  "lower s = map lower_char s"

definition count_char :: "char \<Rightarrow> string \<Rightarrow> nat" where
  "count_char c s = length (filter (\<lambda>x. x = c) s)"

fun split_on :: "char \<Rightarrow> string \<Rightarrow> string list" where
  "split_on c [] = [[]]"
| "split_on c (x # xs) =
     (if x = c then [] # split_on c xs
      else (let r = split_on c xs in (x # hd r) # tl r))"

definition startswith :: "string \<Rightarrow> string \<Rightarrow> bool" where
  "startswith s p = (take (length p) s = p)"

definition removeprefix :: "string \<Rightarrow> string \<Rightarrow> string" where
  "removeprefix s p = (if startswith s p then drop (length p) s else s)"

section \<open>Files\<close>

text \<open>
  What \<^verbatim>\<open>path.open("r", encoding="utf-8", errors="ignore")\<close> followed by
  \<^verbatim>\<open>for line in f\<close> can do: the open raises \<^verbatim>\<open>OSError\<close>; or the whole text is
  delivered; or the text of some complete lines is delivered and the next read raises
  \<^verbatim>\<open>OSError\<close>.  Decoding cannot fail (\<^verbatim>\<open>errors="ignore"\<close>).
\<close>

datatype file_read = Open_error | Text string | Text_then_error string

text \<open>A path is the list of its components, as \<^verbatim>\<open>PurePath.parts\<close> has it.\<close>

type_synonym path = "string list"

fun universal_newlines :: "string \<Rightarrow> string" where
  "universal_newlines [] = []"
| "universal_newlines [c] = (if c = CR then [LF] else [c])"
| "universal_newlines (c # d # cs) =
     (if c = CR \<and> d = LF then LF # universal_newlines cs
      else if c = CR then LF # universal_newlines (d # cs)
      else c # universal_newlines (d # cs))"

fun split_lines :: "string \<Rightarrow> string list" where
  "split_lines [] = []"
| "split_lines (c # cs) =
     (if c = LF then [LF] # split_lines cs
      else (case split_lines cs of [] \<Rightarrow> [[c]] | l # ls \<Rightarrow> (c # l) # ls))"

definition file_lines :: "string \<Rightarrow> string list" where
  \<comment> \<open>the lines a text-mode file iterator yields, each with its line end\<close>
  "file_lines t = split_lines (universal_newlines t)"

section \<open>Manifest parsing (\<^verbatim>\<open>steam_discovery.parse_acf\<close>)\<close>

definition acf_line :: "(string \<rightharpoonup> string) \<Rightarrow> string \<Rightarrow> (string \<rightharpoonup> string)" where
  \<comment> \<open>the body of the loop over the lines; a line with four quote characters splits
      into five parts at least, so both indices are in range\<close>
  "acf_line data raw =
     (let line = strip raw
      in if line = [] \<or> startswith line ''//'' then data
         else if count_char dq line \<ge> 4
         then (let parts = split_on dq line;
                   key = parts ! 1;
                   val = parts ! 3
               in data(key \<mapsto> val))
         else data)"

definition acf_lines :: "(string \<rightharpoonup> string) \<Rightarrow> string list \<Rightarrow> (string \<rightharpoonup> string)" where
  "acf_lines data ls = foldl acf_line data ls"

definition parse_acf :: "(path \<Rightarrow> file_read) \<Rightarrow> path \<Rightarrow> (string \<rightharpoonup> string)" where
  \<comment> \<open>\<^verbatim>\<open>except OSError: pass\<close> keeps the entries stored before the error\<close>
  "parse_acf rd p =
     (case rd p of
        Open_error \<Rightarrow> Map.empty
      | Text t \<Rightarrow> acf_lines Map.empty (file_lines t)
      | Text_then_error t \<Rightarrow> acf_lines Map.empty (file_lines t))"

subsection \<open>The parser as the specification words it\<close>

text \<open>
  \<open>spec_line_entry\<close> is what one stripped line contributes and \<open>spec_entries\<close> the
  mapping of a sequence of lines, a key keeping the entry of its last line.
\<close>

definition spec_line_entry :: "string \<Rightarrow> (string \<times> string) option" where
  \<comment> \<open>what one stripped line contributes, following the specification's sentence\<close>
  "spec_line_entry line =
     (if line = [] then None
      else if startswith line ''//'' then None
      else if count_char dq line < 4 then None
      else Some (split_on dq line ! 1, split_on dq line ! 3))"

fun spec_entries :: "string list \<Rightarrow> (string \<rightharpoonup> string)" where
  "spec_entries [] = Map.empty"
| "spec_entries (l # ls) =
     (case spec_line_entry (strip l) of
        None \<Rightarrow> spec_entries ls
      | Some (k, v) \<Rightarrow> (if k \<in> dom (spec_entries ls) then spec_entries ls
                        else (spec_entries ls)(k \<mapsto> v)))"

section \<open>Integers and their decimal text\<close>

definition is_digit :: "char \<Rightarrow> bool" where
  "is_digit c = (let n = (of_char c :: nat) in 48 \<le> n \<and> n \<le> 57)"

definition digit_char :: "nat \<Rightarrow> char" where
  "digit_char d = char_of (48 + d)"

definition digits_val :: "string \<Rightarrow> nat" where
  "digits_val ds = foldl (\<lambda>acc c. 10 * acc + (of_char c - 48)) 0 ds"

fun show_nat :: "nat \<Rightarrow> string" where
  "show_nat n = (if n < 10 then [digit_char n] else show_nat (n div 10) @ [digit_char (n mod 10)])"

declare show_nat.simps [simp del]

definition show_int :: "int \<Rightarrow> string" where
  \<comment> \<open>\<^verbatim>\<open>str(n)\<close>, also what an f-string writes for \<^verbatim>\<open>{n}\<close>\<close>
  "show_int i = (if i < 0 then CHR ''-'' # show_nat (nat (- i)) else show_nat (nat i))"

definition int_isspace :: "char \<Rightarrow> bool" where
  \<comment> \<open>the whitespace \<^verbatim>\<open>int()\<close> skips around the number: the ASCII blanks, and the two
      blanks above 127; the separators \<^verbatim>\<open>\x1c\<close> to \<^verbatim>\<open>\x1f\<close>, which \<^verbatim>\<open>str.strip\<close>
      removes, are not among them\<close>
  "int_isspace c =
     (let n = (of_char c :: nat)
      in (9 \<le> n \<and> n \<le> 13) \<or> n = 32 \<or> n = 133 \<or> n = 160)"

definition int_strip :: "string \<Rightarrow> string" where
  "int_strip s = rev (dropWhile int_isspace (rev (dropWhile int_isspace s)))"

definition py_int :: "string \<Rightarrow> int option" where
  \<comment> \<open>\<^verbatim>\<open>int(s)\<close>: surrounding whitespace, one optional sign, decimal digits in groups
      separated by single underscores; \<open>None\<close> is \<^verbatim>\<open>ValueError\<close>\<close>
  "py_int s =
     (let t = int_strip s;
          neg = (t \<noteq> [] \<and> hd t = CHR ''-'');
          body = (if t \<noteq> [] \<and> (hd t = CHR ''-'' \<or> hd t = CHR ''+'') then tl t else t);
          groups = split_on (CHR ''_'') body
      in if list_all (\<lambda>g. g \<noteq> [] \<and> list_all is_digit g) groups
         then Some (if neg then - int (digits_val (concat groups)) else int (digits_val (concat groups)))
         else None)"

section \<open>Paths (\<^verbatim>\<open>pathlib\<close>)\<close>

text \<open>
  \<open>Path\<close> parses a string the way the POSIX flavour does: the components between
  slashes, empty ones and \<^verbatim>\<open>.\<close> dropped; a leading slash is kept as the component
  \<^verbatim>\<open>/\<close>, exactly two leading slashes as the component \<^verbatim>\<open>//\<close>.  The Windows flavour,
  which splits at backslashes and drive letters as well, is not modelled.  The suffix
  and the stem of a name are taken at its last dot, unless that dot is the first or the
  last character.
\<close>

definition posix_root :: "string \<Rightarrow> string" where
  \<comment> \<open>\<^verbatim>\<open>posixpath.splitroot\<close>: no root, \<^verbatim>\<open>/\<close>, or \<^verbatim>\<open>//\<close> for exactly two slashes\<close>
  "posix_root s =
     (if \<not> startswith s ''/'' then []
      else if startswith s ''//'' \<and> \<not> startswith s ''///'' then ''//''
      else ''/'')"

definition Path :: "string \<Rightarrow> path" where
  "Path s =
     (let comps = filter (\<lambda>x. x \<noteq> [] \<and> x \<noteq> ''.'') (split_on (CHR ''/'') s)
      in if posix_root s = [] then comps else posix_root s # comps)"

fun join_with :: "string \<Rightarrow> string list \<Rightarrow> string" where
  "join_with sep [] = []"
| "join_with sep [x] = x"
| "join_with sep (x # y # ys) = x @ sep @ join_with sep (y # ys)"

definition anchor_only :: "path \<Rightarrow> bool" where
  \<comment> \<open>the path is a root and nothing else\<close>
  "anchor_only p = (p = [''/''] \<or> p = [''//''])"

definition path_str :: "path \<Rightarrow> string" where
  \<comment> \<open>\<^verbatim>\<open>str(path)\<close>\<close>
  "path_str p =
     (case p of
        [] \<Rightarrow> ''.''
      | r # rest \<Rightarrow> (if r = ''/'' \<or> r = ''//'' then r @ join_with ''/'' rest
                     else join_with ''/'' p))"

definition pjoin :: "path \<Rightarrow> string \<Rightarrow> path" where
  \<comment> \<open>\<^verbatim>\<open>path / s\<close>: an absolute right operand replaces the left one\<close>
  "pjoin p s = (if startswith s ''/'' then Path s else p @ Path s)"

definition path_name :: "path \<Rightarrow> string" where
  \<comment> \<open>\<^verbatim>\<open>path.name\<close>: the last component, empty for the empty path and for the root\<close>
  "path_name p = (if p = [] \<or> anchor_only p then [] else last p)"

definition last_dot :: "string \<Rightarrow> nat option" where
  \<comment> \<open>\<^verbatim>\<open>name.rfind('.')\<close>; \<open>None\<close> is \<^verbatim>\<open>-1\<close>\<close>
  "last_dot n =
     (case dropWhile (\<lambda>c. c \<noteq> CHR ''.'') (rev n) of
        [] \<Rightarrow> None
      | _ # front \<Rightarrow> Some (length front))"

definition name_suffix :: "string \<Rightarrow> string" where
  \<comment> \<open>\<^verbatim>\<open>if 0 < i < len(name) - 1: return name[i:]\<close>\<close>
  "name_suffix n =
     (case last_dot n of
        None \<Rightarrow> []
      | Some i \<Rightarrow> (if 0 < i \<and> i + 1 < length n then drop i n else []))"

definition name_stem :: "string \<Rightarrow> string" where
  "name_stem n =
     (case last_dot n of
        None \<Rightarrow> n
      | Some i \<Rightarrow> (if 0 < i \<and> i + 1 < length n then take i n else n))"

definition suffix :: "path \<Rightarrow> string" where
  "suffix p = name_suffix (path_name p)"

definition stem :: "path \<Rightarrow> string" where
  "stem p = name_stem (path_name p)"

section \<open>The machine the discovery runs on\<close>

text \<open>
  A directory holds files and directories.  A file carries the answer of
  \<^verbatim>\<open>path.is_file() and os.access(path, os.X_OK)\<close>.  A directory that cannot be listed, and
  a symbolic link to a directory (which \<^verbatim>\<open>os.walk\<close> lists but does not follow), is a
  directory without entries.
\<close>

datatype entry = File string bool | Dir string "entry list"

fun entry_name :: "entry \<Rightarrow> string" where
  "entry_name (File n x) = n"
| "entry_name (Dir n es) = n"

datatype OSType = WINDOWS | LINUX | UNKNOWN

record world =
  w_system :: string  \<comment> \<open>\<^verbatim>\<open>platform.system()\<close>\<close>
  w_home :: path  \<comment> \<open>\<^verbatim>\<open>Path.home()\<close>\<close>
  w_pwd_dir :: "string \<rightharpoonup> string"  \<comment> \<open>the home directories of the password database\<close>
  w_environ :: "string \<rightharpoonup> string"  \<comment> \<open>\<^verbatim>\<open>os.environ\<close>\<close>
  w_exists :: "path \<Rightarrow> bool"  \<comment> \<open>\<^verbatim>\<open>path.exists()\<close>\<close>
  w_read :: "path \<Rightarrow> file_read"  \<comment> \<open>opening and reading a file as text\<close>
  w_resolve :: "path \<Rightarrow> path"  \<comment> \<open>\<^verbatim>\<open>path.resolve()\<close>\<close>
  w_tree :: "path \<Rightarrow> entry list"  \<comment> \<open>the entries of the directory at a path\<close>

definition get_os :: "world \<Rightarrow> OSType" where
  "get_os w =
     (let system = lower (w_system w)
      in if system = ''windows'' then WINDOWS
         else if system = ''linux'' then LINUX
         else UNKNOWN)"

definition is_windows :: "world \<Rightarrow> bool" where
  "is_windows w = (get_os w = WINDOWS)"

definition is_linux :: "world \<Rightarrow> bool" where
  "is_linux w = (get_os w = LINUX)"

definition executable_extensions :: "world \<Rightarrow> string list" where
  "executable_extensions w =
     (if is_windows w then [''.exe'', ''.bat'', ''.cmd'', ''.ps1'', ''.py'']
      else if is_linux w then [''.sh'', ''.py'']
      else [])"

definition get_env :: "world \<Rightarrow> string \<Rightarrow> string option" where
  "get_env w env = w_environ w env"

section \<open>Application records\<close>

text \<open>
  \<^verbatim>\<open>app/types/uvrlapp.py\<close> declares \<^verbatim>\<open>DiscoveredApp\<close> with a name and a path;
  \<^verbatim>\<open>app/discovery.py\<close> declares it with a source and a confidence as well.
\<close>

datatype source = steam | filesystem | manual

record DiscoveredApp =
  app_name :: string
  app_path :: path

record RankedApp = DiscoveredApp +
  app_source :: source
  app_confidence :: int

record SteamApp =
  appid :: int
  steam_name :: string
  install_dir :: path

section \<open>Steam libraries (\<^verbatim>\<open>steam_discovery.py\<close>)\<close>

definition find_steam_root :: "world \<Rightarrow> path option" where
  "find_steam_root w =
     (let os_type = get_os w
      in if os_type = WINDOWS
         then (let p = Path ''C:/Program Files (x86)/Steam'' in if w_exists w p then Some p else None)
         else if os_type = LINUX
         then (let p = pjoin (pjoin (w_home w) ''.steam'') ''steam'' in if w_exists w p then Some p else None)
         else None)"

definition vdf_line :: "world \<Rightarrow> path list \<Rightarrow> string \<Rightarrow> path list" where
  \<comment> \<open>the body of the loop over the lines of \<^verbatim>\<open>libraryfolders.vdf\<close>\<close>
  "vdf_line w libraries raw =
     (let line = strip raw
      in if count_char dq line \<ge> 4
         then (let parts = split_on dq line;
                   val = parts ! 3;
                   lib_path = Path val;
                   steamapps = pjoin lib_path ''steamapps''
               in if w_exists w steamapps then libraries @ [steamapps] else libraries)
         else libraries)"

definition parse_libraryfolders_vdf :: "world \<Rightarrow> path \<Rightarrow> path list" where
  "parse_libraryfolders_vdf w p =
     (case w_read w p of
        Open_error \<Rightarrow> []
      | Text t \<Rightarrow> foldl (vdf_line w) [] (file_lines t)
      | Text_then_error t \<Rightarrow> foldl (vdf_line w) [] (file_lines t))"

definition find_steam_libraries :: "world \<Rightarrow> path list" where
  \<comment> \<open>\<^verbatim>\<open>list({lib.resolve() for lib in libraries})\<close>: each resolved path once; the order
      of a Python set is not fixed, \<open>remdups\<close> fixes one\<close>
  "find_steam_libraries w =
     (case find_steam_root w of
        None \<Rightarrow> []
      | Some steam_root \<Rightarrow>
          (let default = pjoin steam_root ''steamapps'';
               libraries = (if w_exists w default then [default] else []);
               vdf = pjoin (pjoin steam_root ''steamapps'') ''libraryfolders.vdf'';
               libraries = (if w_exists w vdf then libraries @ parse_libraryfolders_vdf w vdf
                            else libraries)
           in remdups (map (w_resolve w) libraries)))"

section \<open>Installed applications (\<^verbatim>\<open>steam_discovery.find_installed_steam_apps\<close>)\<close>

definition endswith :: "string \<Rightarrow> string \<Rightarrow> bool" where
  "endswith s p = (length p \<le> length s \<and> drop (length s - length p) s = p)"

definition manifest_pattern :: "world \<Rightarrow> string \<Rightarrow> bool" where
  \<comment> \<open>the pattern \<^verbatim>\<open>appmanifest_*.acf\<close>; \<^verbatim>\<open>pathlib\<close> compares without case on Windows\<close>
  "manifest_pattern w n =
     (let m = (if get_os w = WINDOWS then lower n else n)
      in startswith m ''appmanifest_'' \<and> endswith m ''.acf'' \<and> 16 \<le> length m)"

definition glob_manifests :: "world \<Rightarrow> path \<Rightarrow> path list" where
  \<comment> \<open>\<^verbatim>\<open>steamapps.glob("appmanifest_*.acf")\<close>\<close>
  "glob_manifests w d =
     map (\<lambda>n. d @ [n]) (filter (manifest_pattern w) (map entry_name (w_tree w d)))"

definition manifest_appid :: "path \<Rightarrow> int option" where
  \<comment> \<open>\<^verbatim>\<open>int(manifest.stem.split("_")[1])\<close>; \<open>None\<close> is \<^verbatim>\<open>IndexError\<close> or \<^verbatim>\<open>ValueError\<close>\<close>
  "manifest_appid manifest =
     (let segs = split_on (CHR ''_'') (stem manifest)
      in if length segs < 2 then None else py_int (segs ! 1))"

definition manifest_app :: "world \<Rightarrow> path \<Rightarrow> path \<Rightarrow> SteamApp option" where
  \<comment> \<open>the body of the loop over the manifests of one library; \<open>None\<close> is \<^verbatim>\<open>continue\<close>\<close>
  "manifest_app w steamapps manifest =
     (case manifest_appid manifest of
        None \<Rightarrow> None
      | Some n \<Rightarrow>
          (let acf = parse_acf (w_read w) manifest;
               nm = (case acf ''name'' of None \<Rightarrow> ''Steam App '' @ show_int n | Some v \<Rightarrow> v);
               installdir = acf ''installdir'';
               install_path =
                 (case installdir of
                    None \<Rightarrow> steamapps
                  | Some d \<Rightarrow> (if d \<noteq> [] then pjoin (pjoin steamapps ''common'') d else steamapps))
           in Some \<lparr>appid = n, steam_name = nm, install_dir = install_path\<rparr>))"

definition find_installed_steam_apps :: "world \<Rightarrow> SteamApp list" where
  "find_installed_steam_apps w =
     (let libraries = find_steam_libraries w
      in if libraries = [] then []
         else concat (map (\<lambda>steamapps.
                List.map_filter (manifest_app w steamapps) (glob_manifests w steamapps)) libraries))"

definition steam_apps_to_discovered :: "SteamApp list \<Rightarrow> RankedApp list" where
  \<comment> \<open>the path is built by \<^verbatim>\<open>Path(f"steam://run/{app.appid}")\<close>, which parses the text
      into the components \<^verbatim>\<open>steam:\<close>, \<^verbatim>\<open>run\<close> and the number\<close>
  "steam_apps_to_discovered apps =
     map (\<lambda>app. \<lparr>app_name = steam_name app,
                 app_path = Path (''steam://run/'' @ show_int (appid app)),
                 app_source = steam,
                 app_confidence = 60\<rparr>) apps"

section \<open>The opt-in filesystem walk (\<^verbatim>\<open>hi.discover_filesystem_apps_optin\<close>)\<close>

text \<open>
  One configured root, as the dictionary the configuration holds: \<open>None\<close> is an absent
  key, for which the walk reads \<^verbatim>\<open>r.get(key, default)\<close>.
\<close>

record RootSpec =
  rs_path :: string
  rs_enabled :: "bool option"
  rs_recursive :: "bool option"
  rs_max_depth :: "int option"
  rs_label :: "string option"

definition DEFAULT_EXCLUDED_DIR_NAMES :: "string set" where
  "DEFAULT_EXCLUDED_DIR_NAMES =
     {''windows'', ''.venv'', ''node_modules'', ''__pycache__'', ''.git'', ''.idea'',
      ''temp'', ''tmp'', ''videos'', ''pictures'', ''music'', ''gallery''}"

definition expanduser :: "world \<Rightarrow> path \<Rightarrow> path" where
  \<comment> \<open>a first component \<^verbatim>\<open>~\<close> becomes the home directory, and \<^verbatim>\<open>~user\<close> the home
      directory the password database has for that user.  For a user the database does
      not know \<^verbatim>\<open>Path.expanduser\<close> raises \<^verbatim>\<open>RuntimeError\<close>; the model leaves such
      a path as it is.\<close>
  "expanduser w p =
     (case p of
        [] \<Rightarrow> []
      | c # rest \<Rightarrow>
          (if c = ''~'' then w_home w @ rest
           else if startswith c ''~''
           then (case w_pwd_dir w (tl c) of None \<Rightarrow> p | Some h \<Rightarrow> Path h @ rest)
           else p))"

definition launchable :: "OSType \<Rightarrow> string set \<Rightarrow> path \<Rightarrow> bool \<Rightarrow> bool" where
  \<comment> \<open>the three branches on \<^verbatim>\<open>os_type\<close> that do not \<^verbatim>\<open>continue\<close>; \<open>x\<close> is
      \<^verbatim>\<open>_is_linux_executable(p)\<close>\<close>
  "launchable os_type exts p x =
     (if os_type = WINDOWS then lower (suffix p) \<in> exts
      else if os_type = LINUX then lower (suffix p) \<in> exts \<or> x
      else lower (suffix p) \<in> exts)"

fun file_entries :: "entry list \<Rightarrow> (string \<times> bool) list" where
  "file_entries [] = []"
| "file_entries (File fn x # es) = (fn, x) # file_entries es"
| "file_entries (Dir d sub # es) = file_entries es"

fun dir_entries :: "entry list \<Rightarrow> (string \<times> entry list) list" where
  "dir_entries [] = []"
| "dir_entries (File fn x # es) = dir_entries es"
| "dir_entries (Dir d sub # es) = (d, sub) # dir_entries es"

function os_walk ::
  "string set \<Rightarrow> int \<Rightarrow> string list \<Rightarrow> entry list \<Rightarrow> (string list \<times> entry list) list" where
  \<comment> \<open>\<^verbatim>\<open>os.walk(root)\<close>, top-down, as the loop body drives it: the body assigns
      \<^verbatim>\<open>dirnames[:]\<close> twice before the generator descends.  The result lists the
      directories visited, each with its path relative to the root (whose length is
      \<^verbatim>\<open>len(dp.relative_to(root).parts)\<close>) and its entries.  \<^verbatim>\<open>relative_to\<close> cannot raise
      here, every \<^verbatim>\<open>dirpath\<close> lies under the root.  A root that is a file is walked like
      an empty directory: nothing is found in it.\<close>
  "os_walk excluded_dir_names max_depth rel es =
     (let depth = int (length rel);
          dirnames = filter (\<lambda>(d, sub). lower d \<notin> excluded_dir_names) (dir_entries es);
          dirnames = (if depth \<ge> max_depth then [] else dirnames)
      in (rel, es) # concat (map (\<lambda>(d, sub).
                       os_walk excluded_dir_names max_depth (rel @ [d]) sub) dirnames))"
  by pat_completeness auto
termination
proof (relation "measure (\<lambda>(excl, md, rel, es). size_list size es)")
  show "wf (measure (\<lambda>(excl, md, rel, es). size_list size es))"
    by simp
next
  fix excluded_dir_names :: "string set" and max_depth :: int
    and rel :: "string list" and es :: "entry list"
    and depth dirnames dirnamesa and e :: "string \<times> entry list" and d sub
  assume pruned: "dirnamesa = (if max_depth \<le> depth then [] else dirnames)"
    and kept: "dirnames = filter (\<lambda>(d, sub). lower d \<notin> excluded_dir_names) (dir_entries es)"
    and mem: "e \<in> set dirnamesa" and e: "(d, sub) = e"
  have smaller: "(d', sub') \<in> set (dir_entries es') \<Longrightarrow> size_list size sub' < size_list size es'"
    for d' sub' and es' :: "entry list"
    by (induction es' rule: dir_entries.induct) auto
  from pruned kept mem e have "(d, sub) \<in> set (dir_entries es)"
    by (auto split: if_splits)
  then have "size_list size sub < size_list size es"
    by (rule smaller)
  then show "((excluded_dir_names, max_depth, rel @ [d], sub),
              (excluded_dir_names, max_depth, rel, es))
             \<in> measure (\<lambda>(excl, md, rel, es). size_list size es)"
    by simp
qed

declare os_walk.simps [simp del]

definition found_in ::
  "OSType \<Rightarrow> string set \<Rightarrow> path \<Rightarrow> string list \<times> entry list \<Rightarrow> DiscoveredApp list" where
  \<comment> \<open>the loop over the \<^verbatim>\<open>filenames\<close> of one visited directory\<close>
  "found_in os_type exts root visited =
     (case visited of (rel, es) \<Rightarrow>
        (let dp = root @ rel
         in concat (map (\<lambda>(fn, x).
              (let p = dp @ [fn]
               in if launchable os_type exts p x
                  then [\<lparr>app_name = stem p, app_path = p\<rparr>] else []))
              (file_entries es))))"

definition root_path :: "world \<Rightarrow> RootSpec \<Rightarrow> path" where
  \<comment> \<open>\<^verbatim>\<open>Path(r["path"]).expanduser()\<close>\<close>
  "root_path w r = expanduser w (Path (rs_path r))"

definition visited_dirs ::
  "world \<Rightarrow> string set \<Rightarrow> RootSpec \<Rightarrow> (string list \<times> entry list) list" where
  \<comment> \<open>the body of the loop over the roots, up to the directories \<^verbatim>\<open>os.walk\<close> yields:
      none for a root that is skipped\<close>
  "visited_dirs w excluded_dir_names r =
     (if \<not> (case rs_enabled r of None \<Rightarrow> False | Some b \<Rightarrow> b) then []
      else (let root = root_path w r
            in if \<not> w_exists w root then []
               else (let max_depth = (case rs_max_depth r of None \<Rightarrow> 3 | Some n \<Rightarrow> n);
                         recursive = (case rs_recursive r of None \<Rightarrow> True | Some b \<Rightarrow> b);
                         max_depth = (if \<not> recursive then 1 else max_depth)
                     in os_walk excluded_dir_names max_depth [] (w_tree w root))))"

definition discover_root ::
  "world \<Rightarrow> string set \<Rightarrow> RootSpec \<Rightarrow> DiscoveredApp list" where
  \<comment> \<open>what one root adds to \<^verbatim>\<open>discovered\<close>: the files found in the directories visited\<close>
  "discover_root w excluded_dir_names r =
     concat (map (found_in (get_os w) (set (executable_extensions w)) (root_path w r))
               (visited_dirs w excluded_dir_names r))"

definition discover_filesystem_apps_optin ::
  "world \<Rightarrow> RootSpec list \<Rightarrow> string set \<Rightarrow> DiscoveredApp list" where
  "discover_filesystem_apps_optin w roots excluded_dir_names =
     concat (map (discover_root w excluded_dir_names) roots)"

definition effective_depth :: "RootSpec \<Rightarrow> int" where
  \<comment> \<open>the depth bound the walk of a root runs with\<close>
  "effective_depth r =
     (if \<not> (case rs_recursive r of None \<Rightarrow> True | Some b \<Rightarrow> b) then 1
      else (case rs_max_depth r of None \<Rightarrow> 3 | Some n \<Rightarrow> n))"

section \<open>The broad filesystem scan (\<^verbatim>\<open>discovery.py\<close> and \<^verbatim>\<open>discovery/applist_manager.py\<close>)\<close>

datatype error = UnboundLocalError | OSError | JSONDecodeError | AttributeError | TypeError

definition LAUNCHABLE_EXTENSIONS :: "string set" where
  \<comment> \<open>\<^verbatim>\<open>discovery.py\<close>\<close>
  "LAUNCHABLE_EXTENSIONS = {''.exe'', ''.bat'', ''.cmd'', ''.ps1'', ''.py''}"

definition LAUNCHABLE_EXTENSIONS_applist :: "string set" where
  \<comment> \<open>\<^verbatim>\<open>discovery/applist_manager.py\<close>\<close>
  "LAUNCHABLE_EXTENSIONS_applist = {''.exe'', ''.bat'', ''.cmd'', ''.ps1'', ''.py'', ''.sh''}"

definition EXCLUDED_DIR_NAMES :: "string set" where
  "EXCLUDED_DIR_NAMES =
     {''windows'', ''.venv'', ''node_modules'', ''__pycache__'', ''.git'', ''.idea'',
      ''temp'', ''tmp'', ''videos'', ''pictures'', ''music'', ''gallery''}"

function rglob :: "string list \<Rightarrow> entry list \<Rightarrow> (string list \<times> entry) list" where
  \<comment> \<open>\<^verbatim>\<open>root.rglob("*")\<close>: every entry below the root, with its path relative to the root;
      the entries of a directory come before those of its subdirectories\<close>
  "rglob rel es =
     map (\<lambda>e. (rel @ [entry_name e], e)) es
     @ concat (map (\<lambda>(d, sub). rglob (rel @ [d]) sub) (dir_entries es))"
  by pat_completeness auto
termination
proof (relation "measure (\<lambda>(rel, es). size_list size es)")
  show "wf (measure (\<lambda>(rel, es). size_list size es))"
    by simp
next
  fix rel :: "string list" and es :: "entry list" and e :: "string \<times> entry list" and d sub
  assume mem: "e \<in> set (dir_entries es)" and e: "(d, sub) = e"
  have smaller: "(d', sub') \<in> set (dir_entries es') \<Longrightarrow> size_list size sub' < size_list size es'"
    for d' sub' and es' :: "entry list"
    by (induction es' rule: dir_entries.induct) auto
  from mem e have "(d, sub) \<in> set (dir_entries es)"
    by simp
  then have "size_list size sub < size_list size es"
    by (rule smaller)
  then show "((rel @ [d], sub), (rel, es)) \<in> measure (\<lambda>(rel, es). size_list size es)"
    by simp
qed

declare rglob.simps [simp del]

fun is_dir :: "entry \<Rightarrow> bool" where
  "is_dir (File fn x) = False"
| "is_dir (Dir d sub) = True"

definition environ_get :: "world \<Rightarrow> string \<Rightarrow> string \<Rightarrow> string" where
  \<comment> \<open>\<^verbatim>\<open>os.environ.get(key, default)\<close>\<close>
  "environ_get w key dflt = (case w_environ w key of None \<Rightarrow> dflt | Some v \<Rightarrow> v)"

definition filesystem_search_roots :: "world \<Rightarrow> path list" where
  \<comment> \<open>\<^verbatim>\<open>discovery.py\<close>\<close>
  "filesystem_search_roots w =
     (let roots = [w_home w] @
            [Path (environ_get w ''ProgramFiles'' ''''),
             Path (environ_get w ''ProgramFiles(x86)'' ''''),
             Path (environ_get w ''LOCALAPPDATA'' ''''),
             Path (environ_get w ''PROGRAMDATA'' '''')]
      in filter (w_exists w) roots)"

definition should_skip_dir :: "path \<Rightarrow> bool \<Rightarrow> bool" where
  "should_skip_dir p include_documents =
     (let name = lower (path_name p)
      in if name \<in> EXCLUDED_DIR_NAMES then True
         else if \<not> include_documents \<and> name = ''documents'' then True
         else if list_ex (\<lambda>part. lower part \<in> {''.venv'', ''node_modules''}) p then True
         else False)"

definition discover_filesystem_apps :: "world \<Rightarrow> bool \<Rightarrow> int \<Rightarrow> RankedApp list" where
  \<comment> \<open>\<^verbatim>\<open>discovery.py\<close>; both branches under \<^verbatim>\<open>path.is_dir()\<close> are \<^verbatim>\<open>continue\<close>\<close>
  "discover_filesystem_apps w include_documents max_depth =
     concat (map (\<lambda>root.
       concat (map (\<lambda>(rel, e).
         (let p = root @ rel;
              relative_depth = int (length rel)
          in if relative_depth > max_depth then []
             else if is_dir e then (if should_skip_dir p include_documents then [] else [])
             else if lower (suffix p) \<notin> LAUNCHABLE_EXTENSIONS then []
             else [\<lparr>app_name = stem p, app_path = p,
                    app_source = filesystem, app_confidence = 40\<rparr>]))
         (rglob [] (w_tree w root))))
       (filesystem_search_roots w))"

definition filesystem_search_roots_applist :: "world \<Rightarrow> error + path list" where
  \<comment> \<open>\<^verbatim>\<open>discovery/applist_manager.py\<close>: \<^verbatim>\<open>platform_env_var\<close> is assigned in the Linux and
      in the Windows branch only, and read after them\<close>
  "filesystem_search_roots_applist w =
     (let current_platform = get_os w;
          platform_env_var =
            (if current_platform = LINUX then Some [''UVRL_APPS'']
             else if current_platform = WINDOWS
             then Some [''HOME'', ''UVRL_APPS'', ''ProgramFiles'', ''ProgamFiles(x86)'',
                        ''LOCALAPPDATA'', ''PROGAMDATA'']
             else None)
      in case platform_env_var of
           None \<Rightarrow> Inl UnboundLocalError
         | Some vars \<Rightarrow>
             (let roots = List.map_filter (\<lambda>env. map_option Path (get_env w env)) vars
              in Inr (filter (w_exists w) roots)))"

definition discover_filesystem_apps_applist :: "world \<Rightarrow> int \<Rightarrow> error + DiscoveredApp list" where
  \<comment> \<open>the roots are computed once for \<^verbatim>\<open>print\<close> and once for the loop\<close>
  "discover_filesystem_apps_applist w max_depth =
     (case filesystem_search_roots_applist w of
        Inl e \<Rightarrow> Inl e
      | Inr printed \<Rightarrow>
          (case filesystem_search_roots_applist w of
             Inl e \<Rightarrow> Inl e
           | Inr roots \<Rightarrow>
               Inr (concat (map (\<lambda>root.
                 concat (map (\<lambda>(rel, e).
                   (let p = root @ rel;
                        relative_depth = int (length rel)
                    in if relative_depth > max_depth then []
                       else if is_dir e then []
                       else if lower (suffix p) \<notin> LAUNCHABLE_EXTENSIONS_applist then []
                       else [\<lparr>app_name = stem p, app_path = p\<rparr>]))
                   (rglob [] (w_tree w root))))
                 roots))))"

section \<open>The allow-list filters\<close>

datatype json = JNull | JBool bool | JNum int | JStr string | JArr "json list"
  | JObj "(string \<times> json) list"

definition app_list_config_path :: path where
  \<comment> \<open>\<^verbatim>\<open>uvrl_config.__init__\<close>; \<^verbatim>\<open>get_default_config()\<close> is taken to build a \<^verbatim>\<open>uvrl_config\<close>\<close>
  "app_list_config_path = Path ''./assets/config/applist.json''"

definition read_file_as_text :: "world \<Rightarrow> string \<Rightarrow> error + string" where
  \<comment> \<open>\<^verbatim>\<open>Path(path).read_text()\<close>, nothing caught; the machine delivers decoded text\<close>
  "read_file_as_text w s =
     (let file_path = Path s
      in case w_read w file_path of
           Open_error \<Rightarrow> Inl OSError
         | Text t \<Rightarrow> Inr (universal_newlines t)
         | Text_then_error t \<Rightarrow> Inl OSError)"

definition json_to_dict :: "(string \<Rightarrow> json option) \<Rightarrow> string \<Rightarrow> error + json" where
  \<comment> \<open>\<^verbatim>\<open>json.loads(data)\<close>; the decoder is a parameter, \<open>None\<close> where it rejects the text\<close>
  "json_to_dict loads data = (case loads data of None \<Rightarrow> Inl JSONDecodeError | Some j \<Rightarrow> Inr j)"

definition json_get :: "json \<Rightarrow> string \<Rightarrow> json \<Rightarrow> error + json" where
  \<comment> \<open>\<^verbatim>\<open>obj.get(key, default)\<close>: only a dictionary has \<^verbatim>\<open>get\<close>; of a repeated key the
      decoder keeps the last value\<close>
  "json_get obj key dflt =
     (case obj of
        JObj kvs \<Rightarrow> Inr (case map_of (rev kvs) key of None \<Rightarrow> dflt | Some v \<Rightarrow> v)
      | _ \<Rightarrow> Inl AttributeError)"

fun contains_str :: "string \<Rightarrow> string \<Rightarrow> bool" where
  \<comment> \<open>\<^verbatim>\<open>k in s\<close> for two strings\<close>
  "contains_str [] k = (k = [])"
| "contains_str (c # cs) k = (startswith (c # cs) k \<or> contains_str cs k)"

definition json_contains :: "string \<Rightarrow> json \<Rightarrow> error + bool" where
  \<comment> \<open>\<^verbatim>\<open>k in container\<close>\<close>
  "json_contains k container =
     (case container of
        JObj kvs \<Rightarrow> Inr (k \<in> set (map fst kvs))
      | JArr xs \<Rightarrow> Inr (JStr k \<in> set xs)
      | JStr s \<Rightarrow> Inr (contains_str s k)
      | _ \<Rightarrow> Inl TypeError)"

fun filter_steam_loop ::
  "json \<Rightarrow> ('a DiscoveredApp_scheme) list \<Rightarrow> ('a DiscoveredApp_scheme) list
   \<Rightarrow> error + ('a DiscoveredApp_scheme) list" where
  "filter_steam_loop steam_apps related [] = Inr related"
| "filter_steam_loop steam_apps related (app # apps) =
     (let s = path_str (app_path app)
      in if \<not> startswith s ''steam://run/'' then filter_steam_loop steam_apps related apps
         else (case py_int (removeprefix s ''steam://run/'') of
                 None \<Rightarrow> filter_steam_loop steam_apps related apps
               | Some n \<Rightarrow>
                   (case json_contains (show_int n) steam_apps of
                      Inl e \<Rightarrow> Inl e
                    | Inr b \<Rightarrow> filter_steam_loop steam_apps
                                (if b then related @ [app] else related) apps)))"

definition filter_steam_apps ::
  "(string \<Rightarrow> json option) \<Rightarrow> world \<Rightarrow> ('a DiscoveredApp_scheme) list
   \<Rightarrow> error + ('a DiscoveredApp_scheme) list" where
  \<comment> \<open>\<^verbatim>\<open>discovery/applist_manager.py\<close>\<close>
  "filter_steam_apps loads w apps =
     (let applist_path = app_list_config_path
      in case read_file_as_text w (path_str applist_path) of
           Inl e \<Rightarrow> Inl e
         | Inr text \<Rightarrow>
             (case json_to_dict loads text of
                Inl e \<Rightarrow> Inl e
              | Inr applist_data \<Rightarrow>
                  (case json_get applist_data ''steam_apps'' (JObj []) of
                     Inl e \<Rightarrow> Inl e
                   | Inr steam_apps \<Rightarrow> filter_steam_loop steam_apps [] apps)))"

fun filter_related_apps :: "int set \<Rightarrow> RankedApp list \<Rightarrow> RankedApp list" where
  \<comment> \<open>\<^verbatim>\<open>discovery.py\<close>; the allow-list \<^verbatim>\<open>STEAMAPPS\<close> that \<^verbatim>\<open>appid in ...\<close> reads is not
      in the sources and is the first parameter\<close>
  "filter_related_apps STEAMAPPS [] = []"
| "filter_related_apps STEAMAPPS (app # apps) =
     (if app_source app \<noteq> steam then filter_related_apps STEAMAPPS apps
      else (let s = path_str (app_path app)
            in if \<not> startswith s ''steam://run/'' then filter_related_apps STEAMAPPS apps
               else (case py_int (removeprefix s ''steam://run/'') of
                       None \<Rightarrow> filter_related_apps STEAMAPPS apps
                     | Some n \<Rightarrow> (if n \<in> STEAMAPPS then app # filter_related_apps STEAMAPPS apps
                                  else filter_related_apps STEAMAPPS apps))))"

section \<open>The aggregators\<close>

definition discover_steam_apps :: "int set \<Rightarrow> world \<Rightarrow> bool \<Rightarrow> RankedApp list" where
  \<comment> \<open>\<^verbatim>\<open>discovery.py\<close>\<close>
  "discover_steam_apps STEAMAPPS w authoritative =
     (let steam_apps = find_installed_steam_apps w;
          discovered = steam_apps_to_discovered steam_apps
      in if authoritative then filter_related_apps STEAMAPPS discovered else discovered)"

definition discover_apps :: "int set \<Rightarrow> world \<Rightarrow> bool \<Rightarrow> bool \<Rightarrow> RankedApp list" where
  \<comment> \<open>\<^verbatim>\<open>discovery.py\<close>; the filesystem scan runs with its default depth\<close>
  "discover_apps STEAMAPPS w include_documents authoritative_steam =
     discover_steam_apps STEAMAPPS w authoritative_steam
     @ discover_filesystem_apps w include_documents 6"

definition discover_steam_apps_applist :: "world \<Rightarrow> RankedApp list" where
  \<comment> \<open>\<^verbatim>\<open>discovery/applist_manager.py\<close>\<close>
  "discover_steam_apps_applist w = steam_apps_to_discovered (find_installed_steam_apps w)"

definition discover_apps_applist :: "world \<Rightarrow> error + (RankedApp + DiscoveredApp) list" where
  \<comment> \<open>\<^verbatim>\<open>discovery/applist_manager.py\<close>: the result holds records of both classes\<close>
  "discover_apps_applist w =
     (let results = map Inl (discover_steam_apps_applist w)
      in case discover_filesystem_apps_applist w 3 of
           Inl e \<Rightarrow> Inl e
         | Inr found \<Rightarrow> Inr (results @ map Inr found))"

section \<open>Where a directory lies in a directory tree\<close>

fun dir_at :: "entry list \<Rightarrow> string list \<Rightarrow> entry list \<Rightarrow> bool" where
  \<comment> \<open>below the directories named by \<open>rel\<close> the tree holds a directory with the entries
      \<open>sub\<close>\<close>
  "dir_at es [] sub = (sub = es)"
| "dir_at es (d # rel) sub =
     list_ex (\<lambda>(d', sub'). d' = d \<and> dir_at sub' rel sub) (dir_entries es)"

section \<open>Example machines\<close>

definition quoted :: "string \<Rightarrow> string" where
  "quoted s = dq # s @ [dq]"

definition rd_interrupted :: "path \<Rightarrow> file_read" where
  \<comment> \<open>every file delivers one line and then fails\<close>
  "rd_interrupted p = Text_then_error (quoted ''name'' @ ''  '' @ quoted ''Portal'' @ [LF])"

definition rd_twice :: "path \<Rightarrow> file_read" where
  \<comment> \<open>every file holds the key \<^verbatim>\<open>name\<close> on two lines\<close>
  "rd_twice p =
     Text (quoted ''name'' @ ''  '' @ quoted ''Old'' @ [LF]
           @ ''// comment'' @ [LF]
           @ quoted ''name'' @ ''  '' @ quoted ''New'' @ [LF]
           @ quoted ''installdir'' @ ''  '' @ quoted ''dir'' @ [LF])"

definition scenario_world :: world where
  \<comment> \<open>Windows; the root \<^verbatim>\<open>R\<close> holds \<^verbatim>\<open>a.exe\<close>, \<^verbatim>\<open>x/y/b.exe\<close>, \<^verbatim>\<open>x/y/z/c.exe\<close>,
      \<^verbatim>\<open>sub/g.exe\<close> and \<^verbatim>\<open>.git/hook.exe\<close>\<close>
  "scenario_world =
     \<lparr>w_system = ''Windows'', w_home = [''C:'', ''Users'', ''u''], w_pwd_dir = Map.empty,
      w_environ = Map.empty,
      w_exists = (\<lambda>p. p = [''R'']),
      w_read = (\<lambda>p. Open_error),
      w_resolve = (\<lambda>p. p),
      w_tree = (\<lambda>p. if p = [''R'']
                then [File ''a.exe'' False,
                      Dir ''x'' [Dir ''y'' [File ''b.exe'' False, Dir ''z'' [File ''c.exe'' False]]],
                      Dir ''sub'' [File ''g.exe'' False],
                      Dir ''.git'' [File ''hook.exe'' False]]
                else [])\<rparr>"

definition root_depth2 :: RootSpec where
  "root_depth2 =
     \<lparr>rs_path = ''R'', rs_enabled = Some True, rs_recursive = Some True,
      rs_max_depth = Some 2, rs_label = None\<rparr>"

definition root_flat :: RootSpec where
  "root_flat =
     \<lparr>rs_path = ''R'', rs_enabled = Some True, rs_recursive = Some False,
      rs_max_depth = Some 2, rs_label = None\<rparr>"

definition steam_world :: world where
  \<comment> \<open>Linux; the listing file names the library \<^verbatim>\<open>/mnt/lib\<close> twice, the second time
      through the link \<^verbatim>\<open>/mnt/link\<close>; the library holds four manifests: one complete, one
      without a name, one with an empty name and one whose name has no number\<close>
  "steam_world =
     \<lparr>w_system = ''Linux'', w_home = [''/'', ''home'', ''u''], w_pwd_dir = Map.empty,
      w_environ = Map.empty,
      w_exists = (\<lambda>p. p \<in> {[''/'', ''home'', ''u'', ''.steam'', ''steam''],
                             [''/'', ''home'', ''u'', ''.steam'', ''steam'', ''steamapps''],
                             [''/'', ''home'', ''u'', ''.steam'', ''steam'', ''steamapps'',
                              ''libraryfolders.vdf''],
                             [''/'', ''mnt'', ''lib'', ''steamapps''],
                             [''/'', ''mnt'', ''link'', ''steamapps'']}),
      w_read = (\<lambda>p.
        if p = [''/'', ''home'', ''u'', ''.steam'', ''steam'', ''steamapps'', ''libraryfolders.vdf'']
        then Text (quoted ''path'' @ ''  '' @ quoted ''/mnt/lib'' @ [LF]
                   @ quoted ''path'' @ ''  '' @ quoted ''/mnt/link'' @ [LF]
                   @ quoted ''path'' @ ''  '' @ quoted ''/mnt/lib/'' @ [LF])
        else if p = [''/'', ''mnt'', ''lib'', ''steamapps'', ''appmanifest_220.acf'']
        then Text (quoted ''name'' @ ''  '' @ quoted ''Half-Life 2'' @ [LF]
                   @ quoted ''installdir'' @ ''  '' @ quoted ''HL2'' @ [LF])
        else if p = [''/'', ''mnt'', ''lib'', ''steamapps'', ''appmanifest_400.acf'']
        then Text (quoted ''installdir'' @ ''  '' @ quoted ''Portal'' @ [LF])
        else if p = [''/'', ''mnt'', ''lib'', ''steamapps'', ''appmanifest_7.acf'']
        then Text (quoted ''name'' @ ''  '' @ quoted '''' @ [LF])
        else Open_error),
      w_resolve = (\<lambda>p. if p = [''/'', ''mnt'', ''link'', ''steamapps'']
                         then [''/'', ''mnt'', ''lib'', ''steamapps''] else p),
      w_tree = (\<lambda>p. if p = [''/'', ''mnt'', ''lib'', ''steamapps'']
                then [File ''appmanifest_220.acf'' False, File ''appmanifest_400.acf'' False,
                      File ''appmanifest_7.acf'' False, File ''appmanifest_x.acf'' False,
                      Dir ''common'' []]
                else [])\<rparr>"

definition example_loads :: "string \<Rightarrow> json option" where
  \<comment> \<open>the decoder on two documents: \<^verbatim>\<open>{}\<close> and one with an empty \<^verbatim>\<open>steam_apps\<close> object\<close>
  "example_loads s =
     (if s = ''{}'' then Some (JObj [])
      else if s = ''{'' @ quoted ''steam_apps'' @ '': {}}''
      then Some (JObj [(''steam_apps'', JObj [])])
      else None)"

definition applist_world :: world where
  \<comment> \<open>\<open>steam_world\<close> with an allow-list document that names no application\<close>
  "applist_world =
     steam_world\<lparr>w_read := (\<lambda>p. if p = [''assets'', ''config'', ''applist.json'']
                                 then Text (''{'' @ quoted ''steam_apps'' @ '': {}}'')
                                 else w_read steam_world p)\<rparr>"

definition unknown_world :: world where
  \<comment> \<open>a machine whose \<^verbatim>\<open>platform.system()\<close> is neither Windows nor Linux\<close>
  "unknown_world =
     \<lparr>w_system = ''Darwin'', w_home = [''/'', ''Users'', ''u''], w_pwd_dir = Map.empty,
      w_environ = Map.empty,
      w_exists = (\<lambda>p. p = [''/'', ''Users'', ''u'']),
      w_read = (\<lambda>p. Open_error),
      w_resolve = (\<lambda>p. p),
      w_tree = (\<lambda>p. [])\<rparr>"

section \<open>The manifest parser\<close>

lemma length_split_on: "length (split_on c s) = Suc (count_char c s)"
  by (induction s) (auto simp: count_char_def Let_def)

lemma acf_line_entry:
  "acf_line data raw =
     (case spec_line_entry (strip raw) of None \<Rightarrow> data | Some (k, v) \<Rightarrow> data(k \<mapsto> v))"
  by (simp add: acf_line_def spec_line_entry_def Let_def)

lemma spec_entries_Cons:
  "spec_entries (l # ls) =
     (case spec_line_entry (strip l) of None \<Rightarrow> Map.empty | Some (k, v) \<Rightarrow> [k \<mapsto> v])
     ++ spec_entries ls"
  by (auto split: option.splits simp: map_add_def fun_eq_iff domIff)

lemma acf_lines_entries: "acf_lines data ls = data ++ spec_entries ls"
proof (induction ls arbitrary: data)
  case Nil
  show ?case by (simp add: acf_lines_def)
next
  case (Cons l ls)
  have "acf_lines data (l # ls) = acf_lines (acf_line data l) ls"
    by (simp add: acf_lines_def)
  also have "\<dots> = acf_line data l ++ spec_entries ls"
    by (rule Cons.IH)
  also have "\<dots> = data ++ spec_entries (l # ls)"
    unfolding spec_entries_Cons acf_line_entry
    by (auto split: option.splits simp: map_add_def fun_eq_iff)
  finally show ?case .
qed

lemma acf_lines_append: "acf_lines data (xs @ ys) = acf_lines (acf_lines data xs) ys"
  by (simp add: acf_lines_def)

lemma acf_line_key:
  "acf_line data l k = (case acf_line Map.empty l k of None \<Rightarrow> data k | Some v \<Rightarrow> Some v)"
  by (auto simp: acf_line_entry split: option.splits)

lemma acf_lines_untouched:
  "\<forall>l \<in> set ls. acf_line Map.empty l k = None \<Longrightarrow> acf_lines data ls k = data k"
proof (induction ls arbitrary: data)
  case Nil
  show ?case by (simp add: acf_lines_def)
next
  case (Cons l ls)
  have "acf_lines data (l # ls) k = acf_lines (acf_line data l) ls k"
    by (simp add: acf_lines_def)
  also have "\<dots> = acf_line data l k" using Cons by simp
  also have "\<dots> = data k" using Cons.prems by (subst acf_line_key) simp
  finally show ?case .
qed

text \<open>
  Claim C6, amended.  For every source, \<open>parse_acf\<close> returns the mapping the
  specification describes line by line: a stripped line that is blank, starts with
  \<^verbatim>\<open>//\<close> or has fewer than four quote characters contributes nothing, every other line
  contributes the entry of its second and fourth quote-split tokens.  Parsing returns a
  mapping in every case.  A failure to open the source yields the empty mapping; a
  failure while reading yields the entries of the lines read before it.
\<close>

theorem parse_acf_entries:
  "parse_acf rd p =
     (case rd p of
        Open_error \<Rightarrow> Map.empty
      | Text t \<Rightarrow> spec_entries (file_lines t)
      | Text_then_error t \<Rightarrow> spec_entries (file_lines t))"
  by (simp add: parse_acf_def acf_lines_entries split: file_read.splits)

text \<open>
  The claim as stated fails where the read fails after a line was delivered: the
  mapping returned is not empty.
\<close>

theorem parse_acf_read_failure_counterexample:
  "parse_acf rd_interrupted [''appmanifest_400.acf''] \<noteq> Map.empty"
proof
  assume "parse_acf rd_interrupted [''appmanifest_400.acf''] = Map.empty"
  then have "parse_acf rd_interrupted [''appmanifest_400.acf''] ''name'' = None"
    by simp
  moreover have "parse_acf rd_interrupted [''appmanifest_400.acf''] ''name'' = Some ''Portal''"
    by code_simp
  ultimately show False by simp
qed

theorem parse_acf_entries_witness:
  "parse_acf rd_interrupted [''appmanifest_400.acf''] ''name'' = Some ''Portal''
   \<and> spec_entries (file_lines (quoted ''name'' @ ''  '' @ quoted ''Portal'' @ [LF])) ''name''
       = Some ''Portal''"
proof -
  have "parse_acf rd_interrupted [''appmanifest_400.acf''] ''name'' = Some ''Portal''"
    by code_simp
  then show ?thesis
    using parse_acf_entries [of rd_interrupted "[''appmanifest_400.acf'']"]
    by (simp add: rd_interrupted_def)
qed

text \<open>
  Claim C10.  When two or more lines of the source are candidate lines with the same
  key, the mapping gives that key the value of the last such line.
\<close>

theorem parse_acf_last_wins:
  assumes "rd p = Text t"
    and "file_lines t = pre @ l1 # mid @ l2 # post"
    and "acf_line Map.empty l1 k = Some v1"
    and "acf_line Map.empty l2 k = Some v2"
    and "\<forall>l \<in> set post. acf_line Map.empty l k = None"
  shows "parse_acf rd p k = Some v2"
proof -
  have "acf_lines Map.empty (pre @ l1 # mid @ l2 # post) k
        = acf_lines (acf_lines Map.empty (pre @ l1 # mid @ [l2])) post k"
    using acf_lines_append [of Map.empty "pre @ l1 # mid @ [l2]" post] by simp
  also have "\<dots> = acf_lines Map.empty (pre @ l1 # mid @ [l2]) k"
    using assms(5) by (rule acf_lines_untouched)
  also have "\<dots> = acf_line (acf_lines Map.empty (pre @ l1 # mid)) l2 k"
    using acf_lines_append [of Map.empty "pre @ l1 # mid" "[l2]"] by (simp add: acf_lines_def)
  also have "\<dots> = Some v2"
    using assms(4) by (subst acf_line_key) simp
  finally show ?thesis using assms(1,2) by (simp add: parse_acf_def)
qed

theorem parse_acf_last_wins_witness:
  "parse_acf rd_twice [''appmanifest_400.acf''] ''name'' = Some ''New''"
proof -
  let ?l1 = "quoted ''name'' @ ''  '' @ quoted ''Old'' @ [LF]"
  let ?l2 = "quoted ''name'' @ ''  '' @ quoted ''New'' @ [LF]"
  let ?l3 = "quoted ''installdir'' @ ''  '' @ quoted ''dir'' @ [LF]"
  let ?t = "?l1 @ ''// comment'' @ [LF] @ ?l2 @ ?l3"
  have rd: "rd_twice [''appmanifest_400.acf''] = Text ?t"
    by (simp add: rd_twice_def)
  have ls: "file_lines ?t = [] @ ?l1 # [''// comment'' @ [LF]] @ ?l2 # [?l3]"
    by code_simp
  have e1: "acf_line Map.empty ?l1 ''name'' = Some ''Old''"
    by code_simp
  have e2: "acf_line Map.empty ?l2 ''name'' = Some ''New''"
    by code_simp
  have e3: "\<forall>l \<in> set [?l3]. acf_line Map.empty l ''name'' = None"
    by code_simp
  show ?thesis
    using parse_acf_last_wins [of rd_twice "[''appmanifest_400.acf'']" ?t "[]" ?l1
        "[''// comment'' @ [LF]]" ?l2 "[?l3]" "''name''" "''Old''" "''New''"] rd ls e1 e2 e3
    by blast
qed

section \<open>The opt-in filesystem walk\<close>

lemma os_walk_unfold:
  "set (os_walk excl md rel es) =
     insert (rel, es)
       (if int (length rel) \<ge> md then {}
        else (\<Union>(d, sub) \<in> {(d, sub). (d, sub) \<in> set (dir_entries es) \<and> lower d \<notin> excl}.
               set (os_walk excl md (rel @ [d]) sub)))"
  by (subst os_walk.simps) (auto simp: Let_def split: if_splits)

lemma os_walk_sound:
  "(rel', es') \<in> set (os_walk excl md rel es) \<Longrightarrow>
   \<exists>p. rel' = rel @ p \<and> dir_at es p es'
      \<and> (p = [] \<or> int (length rel') \<le> md)
      \<and> (\<forall>c \<in> set p. lower c \<notin> excl)"
proof (induction excl md rel es rule: os_walk.induct)
  case (1 excl md rel es)
  from "1.prems" consider
    (here) "rel' = rel" "es' = es"
  | (below) d sub where "\<not> int (length rel) \<ge> md" "(d, sub) \<in> set (dir_entries es)"
      "lower d \<notin> excl" "(rel', es') \<in> set (os_walk excl md (rel @ [d]) sub)"
    unfolding os_walk_unfold [of excl md rel es] by (auto split: if_splits)
  then show ?case
  proof cases
    case here
    then show ?thesis by (intro exI [of _ "[]"]) simp
  next
    case below
    have "(d, sub) \<in> set (if md \<le> int (length rel) then []
             else filter (\<lambda>(d, sub). lower d \<notin> excl) (dir_entries es))"
      using below by simp
    from "1.IH" [OF refl refl refl this refl below(4)]
    obtain p where p: "rel' = (rel @ [d]) @ p" "dir_at sub p es'"
      "p = [] \<or> int (length rel') \<le> md" "\<forall>c \<in> set p. lower c \<notin> excl"
      by blast
    have "dir_at es (d # p) es'"
      using below(2) p(2) by (auto simp: list_ex_iff)
    moreover have "int (length rel') \<le> md"
      using p(1,3) below(1) by auto
    ultimately show ?thesis
      using p below(3) by (intro exI [of _ "d # p"]) simp
  qed
qed


lemma visited_dirs_walk:
  "visited_dirs w excl r =
     (if rs_enabled r = Some True \<and> w_exists w (root_path w r)
      then os_walk excl (effective_depth r) [] (w_tree w (root_path w r))
      else [])"
  by (auto simp: visited_dirs_def effective_depth_def Let_def split: option.splits)

lemma visited_sound:
  assumes "(rel, es) \<in> set (visited_dirs w excl r)"
  shows "rs_enabled r = Some True \<and> w_exists w (root_path w r)
       \<and> dir_at (w_tree w (root_path w r)) rel es
       \<and> (rel = [] \<or> int (length rel) \<le> effective_depth r)
       \<and> (\<forall>c \<in> set rel. lower c \<notin> excl)"
proof -
  from assms have en: "rs_enabled r = Some True" "w_exists w (root_path w r)"
    and v: "(rel, es) \<in> set (os_walk excl (effective_depth r) [] (w_tree w (root_path w r)))"
    by (auto simp: visited_dirs_walk split: if_splits)
  from os_walk_sound [OF v] en show ?thesis by auto
qed


lemma found_in_set:
  "set (found_in os_type exts root (rel, es)) =
     {\<lparr>app_name = stem (root @ rel @ [fn]), app_path = root @ rel @ [fn]\<rparr> | fn x.
        (fn, x) \<in> set (file_entries es) \<and> launchable os_type exts (root @ rel @ [fn]) x}"
  by (auto simp: found_in_def Let_def split: if_splits)

lemma optin_sound:
  assumes "a \<in> set (discover_filesystem_apps_optin w roots excl)"
  shows "\<exists>r \<in> set roots. \<exists>rel es fn x.
           (rel, es) \<in> set (visited_dirs w excl r)
           \<and> (fn, x) \<in> set (file_entries es)
           \<and> launchable (get_os w) (set (executable_extensions w)) (root_path w r @ rel @ [fn]) x
           \<and> a = \<lparr>app_name = stem (root_path w r @ rel @ [fn]),
                   app_path = root_path w r @ rel @ [fn]\<rparr>"
proof -
  from assms obtain r where r: "r \<in> set roots" "a \<in> set (discover_root w excl r)"
    by (auto simp: discover_filesystem_apps_optin_def)
  from r(2) obtain rel es where v: "(rel, es) \<in> set (visited_dirs w excl r)"
    and a: "a \<in> set (found_in (get_os w) (set (executable_extensions w)) (root_path w r) (rel, es))"
    by (auto simp: discover_root_def)
  from a obtain fn x where "(fn, x) \<in> set (file_entries es)"
    "launchable (get_os w) (set (executable_extensions w)) (root_path w r @ rel @ [fn]) x"
    "a = \<lparr>app_name = stem (root_path w r @ rel @ [fn]), app_path = root_path w r @ rel @ [fn]\<rparr>"
    unfolding found_in_set by blast
  with r(1) v show ?thesis by blast
qed




text \<open>
  Claim C3.  With \<^verbatim>\<open>recursive = false\<close> the walk runs with the depth bound 1, so the
  directories directly under the root are still visited: the file \<^verbatim>\<open>R/sub/g.exe\<close>, one
  directory below the root, is returned.
\<close>

theorem nonrecursive_walk_descends:
  "effective_depth root_flat = 1
   \<and> map fst (visited_dirs scenario_world {''.git''} root_flat) = [[], [''x''], [''sub'']]
   \<and> discover_filesystem_apps_optin scenario_world [root_flat] {''.git''} =
       [\<lparr>app_name = ''a'', app_path = [''R'', ''a.exe'']\<rparr>,
        \<lparr>app_name = ''g'', app_path = [''R'', ''sub'', ''g.exe'']\<rparr>]"
  by code_simp

text \<open>
  Claim C5, amended.  The opt-in walk visits no directory that lies in or under a
  subdirectory of its root whose lower-cased name is in the configured exclusion set, and
  every file it returns lies under the root of its walk with no such directory between:
  the directories are pruned before the descent.  The built-in list of junk names takes
  part only where the configuration passes it as that set.
\<close>

theorem walk_skips_excluded:
  "(\<forall>r \<in> set roots. \<forall>v \<in> set (visited_dirs w excl r). \<forall>c \<in> set (fst v). lower c \<notin> excl)
   \<and> (\<forall>a \<in> set (discover_filesystem_apps_optin w roots excl).
        \<exists>r \<in> set roots. \<exists>rel fn.
          app_path a = root_path w r @ rel @ [fn] \<and> (\<forall>c \<in> set rel. lower c \<notin> excl))"
proof (rule conjI)
  show "\<forall>r \<in> set roots. \<forall>v \<in> set (visited_dirs w excl r). \<forall>c \<in> set (fst v). lower c \<notin> excl"
    using visited_sound [of _ _ w excl] by (metis prod.collapse)
  show "\<forall>a \<in> set (discover_filesystem_apps_optin w roots excl).
        \<exists>r \<in> set roots. \<exists>rel fn.
          app_path a = root_path w r @ rel @ [fn] \<and> (\<forall>c \<in> set rel. lower c \<notin> excl)"
  proof
    fix a assume "a \<in> set (discover_filesystem_apps_optin w roots excl)"
    from optin_sound [OF this] obtain r rel es fn where r: "r \<in> set roots"
      "(rel, es) \<in> set (visited_dirs w excl r)"
      "a = \<lparr>app_name = stem (root_path w r @ rel @ [fn]), app_path = root_path w r @ rel @ [fn]\<rparr>"
      by blast
    from visited_sound [OF r(2)] have "\<forall>c \<in> set rel. lower c \<notin> excl"
      by simp
    with r show "\<exists>r \<in> set roots. \<exists>rel fn.
        app_path a = root_path w r @ rel @ [fn] \<and> (\<forall>c \<in> set rel. lower c \<notin> excl)"
      by (intro bexI [of _ r] exI [of _ rel] exI [of _ fn]) simp_all
  qed
qed

theorem walk_skips_excluded_witness:
  "\<lparr>app_name = ''hook'', app_path = [''R'', ''.git'', ''hook.exe'']\<rparr>
     \<notin> set (discover_filesystem_apps_optin scenario_world [root_depth2] {''.git''})"
proof
  assume "\<lparr>app_name = ''hook'', app_path = [''R'', ''.git'', ''hook.exe'']\<rparr>
     \<in> set (discover_filesystem_apps_optin scenario_world [root_depth2] {''.git''})"
  from walk_skips_excluded [THEN conjunct2, rule_format, OF this]
  obtain rel fn where eq: "[''R'', ''.git'', ''hook.exe''] = root_path scenario_world root_depth2 @ rel @ [fn]"
    and ex: "\<forall>c \<in> set rel. lower c \<notin> {''.git''}"
    by auto
  have "root_path scenario_world root_depth2 = [''R'']"
    by code_simp
  with eq have "rel @ [fn] = [''.git''] @ [''hook.exe'']"
    by simp
  then have "rel = [''.git'']"
    by (simp only: append1_eq_conv)
  moreover have "lower ''.git'' = ''.git''"
    by code_simp
  ultimately show False
    using ex by simp
qed

text \<open>
  The claim as stated fails for the built-in list: with an empty configured set the walk
  descends into \<^verbatim>\<open>.git\<close>, a name of the built-in list.
\<close>

theorem walk_junk_list_counterexample:
  "''.git'' \<in> DEFAULT_EXCLUDED_DIR_NAMES
   \<and> [''.git''] \<in> set (map fst (visited_dirs scenario_world {} root_depth2))
   \<and> \<lparr>app_name = ''hook'', app_path = [''R'', ''.git'', ''hook.exe'']\<rparr>
       \<in> set (discover_filesystem_apps_optin scenario_world [root_depth2] {})"
  by code_simp

subsection \<open>The broad scan of \<^verbatim>\<open>discovery.py\<close>\<close>

text \<open>
  The broad scan compares the number of components of the file's own relative path with
  its bound, so it returns a file only when fewer than \<open>max_depth\<close> directories lie
  between the root and the file; and what \<open>should_skip_dir\<close> answers changes nothing.
\<close>

lemma rglob_paths:
  "(rel', e) \<in> set (rglob rel es) \<Longrightarrow> \<exists>p. rel' = rel @ p @ [entry_name e]"
proof (induction rel es rule: rglob.induct)
  case (1 rel es)
  from "1.prems" consider
    (here) "rel' = rel @ [entry_name e]"
  | (below) d sub where "(d, sub) \<in> set (dir_entries es)"
      "(rel', e) \<in> set (rglob (rel @ [d]) sub)"
    by (subst (asm) rglob.simps) auto
  then show ?case
  proof cases
    case here
    then show ?thesis by (intro exI [of _ "[]"]) simp
  next
    case below
    from "1.IH" [OF below(1) refl below(2)]
    obtain p where "rel' = (rel @ [d]) @ p @ [entry_name e]"
      by blast
    then show ?thesis by (intro exI [of _ "d # p"]) simp
  qed
qed

lemma legacy_scan_depth:
  assumes "a \<in> set (discover_filesystem_apps w include_documents max_depth)"
  shows "\<exists>root \<in> set (filesystem_search_roots w). \<exists>rel fn.
           app_path a = root @ rel @ [fn] \<and> int (length rel) < max_depth"
proof -
  from assms obtain root rel e where r: "root \<in> set (filesystem_search_roots w)"
    "(rel, e) \<in> set (rglob [] (w_tree w root))" "\<not> int (length rel) > max_depth"
    "app_path a = root @ rel"
    by (auto simp: discover_filesystem_apps_def Let_def split: if_splits)
  from rglob_paths [OF r(2)] obtain p where "rel = p @ [entry_name e]"
    by auto
  with r show ?thesis
    by (intro bexI [of _ root] exI [of _ p] exI [of _ "entry_name e"]) auto
qed

lemma legacy_scan_skips_nothing:
  "discover_filesystem_apps w True max_depth = discover_filesystem_apps w False max_depth"
  by (simp add: discover_filesystem_apps_def Let_def cong: if_cong)

section \<open>Steam libraries and installed applications\<close>

lemma Path_steam_uri: "Path (''steam://run/'' @ s) \<noteq> []"
  by (simp add: Path_def posix_root_def startswith_def Let_def)

text \<open>
  Claim C7.  Whatever the platform root and the listing file hold, no two entries of the
  list \<open>find_steam_libraries\<close> returns are equal, and no two have the same canonical
  form.  Canonicalisation is taken to return canonical paths (resolving a resolved path
  changes nothing).
\<close>

theorem find_steam_libraries_distinct:
  assumes "\<forall>p. w_resolve w (w_resolve w p) = w_resolve w p"
  shows "distinct (find_steam_libraries w)
       \<and> distinct (map (w_resolve w) (find_steam_libraries w))"
proof -
  have fixed: "map (w_resolve w) (remdups (map (w_resolve w) xs)) = remdups (map (w_resolve w) xs)"
    for xs
    by (rule map_idI) (use assms in auto)
  show ?thesis
    by (cases "find_steam_root w") (simp_all add: find_steam_libraries_def Let_def fixed)
qed

theorem find_steam_libraries_distinct_witness:
  "find_steam_libraries steam_world =
     [[''/'', ''home'', ''u'', ''.steam'', ''steam'', ''steamapps''],
      [''/'', ''mnt'', ''lib'', ''steamapps'']]
   \<and> distinct (map (w_resolve steam_world) (find_steam_libraries steam_world))"
proof -
  have "\<forall>p. w_resolve steam_world (w_resolve steam_world p) = w_resolve steam_world p"
    by (simp add: steam_world_def)
  from find_steam_libraries_distinct [OF this]
  have "distinct (map (w_resolve steam_world) (find_steam_libraries steam_world))"
    by simp
  moreover have "find_steam_libraries steam_world =
     [[''/'', ''home'', ''u'', ''.steam'', ''steam'', ''steamapps''],
      [''/'', ''mnt'', ''lib'', ''steamapps'']]"
    by code_simp
  ultimately show ?thesis by simp
qed

lemma set_map_filter_Some:
  "set (List.map_filter f xs) = {y. \<exists>x \<in> set xs. f x = Some y}"
  by (induction xs) (auto simp: map_filter_simps split: option.splits)

lemma find_installed_steam_apps_set:
  "set (find_installed_steam_apps w) =
     {a. \<exists>lib \<in> set (find_steam_libraries w). \<exists>m \<in> set (glob_manifests w lib).
           manifest_app w lib m = Some a}"
  by (auto simp: find_installed_steam_apps_def Let_def set_map_filter_Some)

lemma manifest_app_name:
  "manifest_app w lib m = Some a \<Longrightarrow>
   manifest_appid m = Some (appid a)
   \<and> steam_name a = (case parse_acf (w_read w) m ''name'' of
                       None \<Rightarrow> ''Steam App '' @ show_int (appid a) | Some v \<Rightarrow> v)"
  by (auto simp: manifest_app_def Let_def split: option.splits)

text \<open>
  Claim C8, amended.  A manifest found in a library whose file name carries the number
  \<open>n\<close> and whose parsed mapping has no \<^verbatim>\<open>name\<close> key gives an application record with
  \<open>appid = n\<close> and the name \<^verbatim>\<open>Steam App n\<close>.
\<close>

theorem missing_name_placeholder:
  assumes "lib \<in> set (find_steam_libraries w)"
    and "m \<in> set (glob_manifests w lib)"
    and "manifest_appid m = Some n"
    and "parse_acf (w_read w) m ''name'' = None"
  shows "\<exists>a \<in> set (find_installed_steam_apps w).
           manifest_app w lib m = Some a \<and> appid a = n
           \<and> steam_name a = ''Steam App '' @ show_int n"
proof -
  obtain a where a: "manifest_app w lib m = Some a"
    using assms(3) by (auto simp: manifest_app_def Let_def)
  then have "a \<in> set (find_installed_steam_apps w)"
    using assms(1,2) by (auto simp: find_installed_steam_apps_set)
  moreover from manifest_app_name [OF a] assms(3,4)
  have "appid a = n" "steam_name a = ''Steam App '' @ show_int n"
    by simp_all
  ultimately show ?thesis using a by blast
qed

theorem missing_name_placeholder_witness:
  "\<lparr>appid = 400, steam_name = ''Steam App 400'',
     install_dir = [''/'', ''mnt'', ''lib'', ''steamapps'', ''common'', ''Portal'']\<rparr>
     \<in> set (find_installed_steam_apps steam_world)"
proof -
  let ?lib = "[''/'', ''mnt'', ''lib'', ''steamapps'']"
  let ?m = "[''/'', ''mnt'', ''lib'', ''steamapps'', ''appmanifest_400.acf'']"
  have "?lib \<in> set (find_steam_libraries steam_world)"
    "?m \<in> set (glob_manifests steam_world ?lib)"
    "manifest_appid ?m = Some 400"
    "parse_acf (w_read steam_world) ?m ''name'' = None"
    by code_simp+
  from missing_name_placeholder [OF this]
  obtain a where "a \<in> set (find_installed_steam_apps steam_world)"
    "manifest_app steam_world ?lib ?m = Some a"
    by blast
  moreover have "manifest_app steam_world ?lib ?m =
    Some \<lparr>appid = 400, steam_name = ''Steam App 400'',
          install_dir = [''/'', ''mnt'', ''lib'', ''steamapps'', ''common'', ''Portal'']\<rparr>"
    by code_simp
  ultimately show ?thesis by simp
qed

text \<open>
  The claim as stated fails on the placeholder's text: the manifest of application 400
  has no name, and no record is named \<^verbatim>\<open>App 400\<close>.
\<close>

theorem missing_name_counterexample:
  "parse_acf (w_read steam_world) [''/'', ''mnt'', ''lib'', ''steamapps'', ''appmanifest_400.acf'']
     ''name'' = None
   \<and> map steam_name (find_installed_steam_apps steam_world)
       = [''Half-Life 2'', ''Steam App 400'', []]
   \<and> ''App 400'' \<notin> set (map steam_name (find_installed_steam_apps steam_world))"
  by code_simp


section \<open>The fields of a discovered application\<close>

lemma name_stem_empty: "name_stem n = [] \<longleftrightarrow> n = []"
  by (auto simp: name_stem_def split: option.splits)

lemma stem_empty:
  "stem (pre @ [fn]) = [] \<longleftrightarrow> fn = [] \<or> anchor_only (pre @ [fn])"
  by (simp add: stem_def path_name_def name_stem_empty)

lemma stem_named:
  assumes "app_path a = pre @ [fn]" and "app_name a = stem (pre @ [fn])"
  shows "app_path a \<noteq> [] \<and> app_name a = stem (app_path a)
       \<and> (app_name a = [] \<longleftrightarrow> last (app_path a) = [] \<or> anchor_only (app_path a))"
  using assms stem_empty [of pre fn] by simp

lemma map_map_filter: "map f (List.map_filter g xs) = List.map_filter (map_option f \<circ> g) xs"
  by (induction xs) (auto simp: map_filter_simps split: option.splits)

lemma converted_apps:
  "steam_apps_to_discovered (find_installed_steam_apps w) =
     concat (map (\<lambda>lib.
       List.map_filter (\<lambda>m.
         map_option (\<lambda>n.
           \<lparr>app_name = (case parse_acf (w_read w) m ''name'' of
                          None \<Rightarrow> ''Steam App '' @ show_int n | Some v \<Rightarrow> v),
            app_path = Path (''steam://run/'' @ show_int n),
            app_source = steam, app_confidence = 60\<rparr>) (manifest_appid m))
         (glob_manifests w lib))
       (find_steam_libraries w))"
proof -
  define conv where "conv = (\<lambda>app :: SteamApp. \<lparr>app_name = steam_name app,
                 app_path = Path (''steam://run/'' @ show_int (appid app)),
                 app_source = steam, app_confidence = 60\<rparr>)"
  define converted where "converted = (\<lambda>m.
         map_option (\<lambda>n.
           \<lparr>app_name = (case parse_acf (w_read w) m ''name'' of
                          None \<Rightarrow> ''Steam App '' @ show_int n | Some v \<Rightarrow> v),
            app_path = Path (''steam://run/'' @ show_int n),
            app_source = steam, app_confidence = 60\<rparr>) (manifest_appid m))"
  have one: "map conv (List.map_filter (manifest_app w lib) ms) = List.map_filter converted ms"
    for lib ms
    by (induction ms)
       (auto simp: conv_def converted_def map_filter_simps manifest_app_def Let_def
             split: option.splits)
  have "steam_apps_to_discovered xs = map conv xs" for xs
    by (simp add: steam_apps_to_discovered_def conv_def)
  then have "steam_apps_to_discovered (find_installed_steam_apps w) =
      concat (map (\<lambda>lib. List.map_filter converted (glob_manifests w lib))
                (find_steam_libraries w))"
    by (simp add: find_installed_steam_apps_def Let_def map_concat comp_def one)
  then show ?thesis
    unfolding converted_def .
qed

text \<open>
  Claim C9, amended.  Every application a filesystem walk returns (the opt-in walk and
  both broad scans) has a non-empty path and the stem of that path's last component as
  its name, which is empty only for an empty file name.  The applications converted from
  manifests are, in order, one for each manifest whose file name carries a number \<open>n\<close>:
  its path is built from \<^verbatim>\<open>steam://run/n\<close> and is not empty, and its name is the
  \<^verbatim>\<open>name\<close> value of that manifest, or \<^verbatim>\<open>Steam App n\<close> where the manifest has no such
  key; so the name is empty exactly where that manifest holds a \<^verbatim>\<open>name\<close> key with the
  empty value.
\<close>

theorem discovered_app_fields:
  "(\<forall>a \<in> set (discover_filesystem_apps_optin w roots excl).
      app_path a \<noteq> [] \<and> app_name a = stem (app_path a)
      \<and> (app_name a = [] \<longleftrightarrow> last (app_path a) = [] \<or> anchor_only (app_path a)))
   \<and> (\<forall>a \<in> set (discover_filesystem_apps w include_documents max_depth).
        app_path a \<noteq> [] \<and> app_name a = stem (app_path a)
        \<and> (app_name a = [] \<longleftrightarrow> last (app_path a) = [] \<or> anchor_only (app_path a)))
   \<and> (\<forall>found. discover_filesystem_apps_applist w max_depth' = Inr found \<longrightarrow>
        (\<forall>a \<in> set found.
           app_path a \<noteq> [] \<and> app_name a = stem (app_path a)
           \<and> (app_name a = [] \<longleftrightarrow> last (app_path a) = [] \<or> anchor_only (app_path a))))
   \<and> steam_apps_to_discovered (find_installed_steam_apps w) =
       concat (map (\<lambda>lib.
         List.map_filter (\<lambda>m.
           map_option (\<lambda>n.
             \<lparr>app_name = (case parse_acf (w_read w) m ''name'' of
                            None \<Rightarrow> ''Steam App '' @ show_int n | Some v \<Rightarrow> v),
              app_path = Path (''steam://run/'' @ show_int n),
              app_source = steam, app_confidence = 60\<rparr>) (manifest_appid m))
           (glob_manifests w lib))
         (find_steam_libraries w))
   \<and> (\<forall>a \<in> set (steam_apps_to_discovered (find_installed_steam_apps w)).
        \<exists>lib \<in> set (find_steam_libraries w). \<exists>m \<in> set (glob_manifests w lib). \<exists>n.
          manifest_appid m = Some n
          \<and> app_path a = Path (''steam://run/'' @ show_int n) \<and> app_path a \<noteq> []
          \<and> app_name a = (case parse_acf (w_read w) m ''name'' of
                            None \<Rightarrow> ''Steam App '' @ show_int n | Some v \<Rightarrow> v)
          \<and> (app_name a = [] \<longleftrightarrow> parse_acf (w_read w) m ''name'' = Some []))"
proof -
  have optin: "app_path a \<noteq> [] \<and> app_name a = stem (app_path a)
      \<and> (app_name a = [] \<longleftrightarrow> last (app_path a) = [] \<or> anchor_only (app_path a))"
    if "a \<in> set (discover_filesystem_apps_optin w roots excl)" for a
  proof -
    from optin_sound [OF that] obtain r rel fn where
      "a = \<lparr>app_name = stem (root_path w r @ rel @ [fn]), app_path = root_path w r @ rel @ [fn]\<rparr>"
      by blast
    then show ?thesis
      by (intro stem_named [where pre = "root_path w r @ rel" and fn = fn]) simp_all
  qed
  have scanned: "app_path a \<noteq> [] \<and> app_name a = stem (app_path a)
      \<and> (app_name a = [] \<longleftrightarrow> last (app_path a) = [] \<or> anchor_only (app_path a))"
    if "(rel, e) \<in> set (rglob [] es)" "app_path a = root @ rel" "app_name a = stem (root @ rel)"
    for a :: "'b DiscoveredApp_scheme" and rel e es root
  proof -
    from rglob_paths [OF that(1)] obtain p where "rel = p @ [entry_name e]"
      by auto
    with that(2,3) show ?thesis
      by (intro stem_named [where pre = "root @ p" and fn = "entry_name e"]) simp_all
  qed
  have legacy: "app_path a \<noteq> [] \<and> app_name a = stem (app_path a)
      \<and> (app_name a = [] \<longleftrightarrow> last (app_path a) = [] \<or> anchor_only (app_path a))"
    if "a \<in> set (discover_filesystem_apps w include_documents max_depth)" for a
  proof -
    from that obtain root rel e where "(rel, e) \<in> set (rglob [] (w_tree w root))"
      "app_path a = root @ rel" "app_name a = stem (root @ rel)"
      by (auto simp: discover_filesystem_apps_def Let_def split: if_splits)
    then show ?thesis by (rule scanned)
  qed
  have applist: "app_path a \<noteq> [] \<and> app_name a = stem (app_path a)
      \<and> (app_name a = [] \<longleftrightarrow> last (app_path a) = [] \<or> anchor_only (app_path a))"
    if "discover_filesystem_apps_applist w max_depth' = Inr found" "a \<in> set found" for found a
  proof -
    from that obtain root rel e where "(rel, e) \<in> set (rglob [] (w_tree w root))"
      "app_path a = root @ rel" "app_name a = stem (root @ rel)"
      by (auto simp: discover_filesystem_apps_applist_def Let_def split: sum.splits if_splits)
    then show ?thesis by (rule scanned)
  qed
  have platform: "\<exists>lib \<in> set (find_steam_libraries w). \<exists>m \<in> set (glob_manifests w lib). \<exists>n.
          manifest_appid m = Some n
          \<and> app_path a = Path (''steam://run/'' @ show_int n) \<and> app_path a \<noteq> []
          \<and> app_name a = (case parse_acf (w_read w) m ''name'' of
                            None \<Rightarrow> ''Steam App '' @ show_int n | Some v \<Rightarrow> v)
          \<and> (app_name a = [] \<longleftrightarrow> parse_acf (w_read w) m ''name'' = Some [])"
    if "a \<in> set (steam_apps_to_discovered (find_installed_steam_apps w))" for a
  proof -
    from that obtain sa where sa: "sa \<in> set (find_installed_steam_apps w)"
      and nm: "app_name a = steam_name sa"
      and pa: "app_path a = Path (''steam://run/'' @ show_int (appid sa))"
      by (auto simp: steam_apps_to_discovered_def)
    from sa obtain lib m where lm: "lib \<in> set (find_steam_libraries w)"
      "m \<in> set (glob_manifests w lib)" "manifest_app w lib m = Some sa"
      by (auto simp: find_installed_steam_apps_set)
    from manifest_app_name [OF lm(3)] have id: "manifest_appid m = Some (appid sa)"
      and name: "app_name a = (case parse_acf (w_read w) m ''name'' of
                            None \<Rightarrow> ''Steam App '' @ show_int (appid sa) | Some v \<Rightarrow> v)"
      by (simp_all add: nm)
    have nonempty: "app_path a \<noteq> []"
      unfolding pa by (rule Path_steam_uri)
    have empty: "app_name a = [] \<longleftrightarrow> parse_acf (w_read w) m ''name'' = Some []"
      unfolding name by (simp split: option.splits)
    from lm(1,2) id pa nonempty name empty show ?thesis
      by blast
  qed
  from optin legacy applist platform converted_apps [of w] show ?thesis
    by blast
qed

theorem discovered_app_fields_witness:
  "(\<exists>lib \<in> set (find_steam_libraries steam_world). \<exists>m \<in> set (glob_manifests steam_world lib).
      manifest_appid m = Some 7 \<and> parse_acf (w_read steam_world) m ''name'' = Some [])
   \<and> stem [''R'', ''x'', ''y'', ''b.exe''] = ''b''
   \<and> map app_name (steam_apps_to_discovered (find_installed_steam_apps steam_world))
       = [''Half-Life 2'', ''Steam App 400'', []]"
proof -
  note fields = discovered_app_fields [of scenario_world "[root_depth2]" "{''.git''}" False 6 3]
  note fields' = discovered_app_fields [of steam_world "[]" "{}" False 6 3]
  have "\<lparr>app_name = ''b'', app_path = [''R'', ''x'', ''y'', ''b.exe'']\<rparr>
          \<in> set (discover_filesystem_apps_optin scenario_world [root_depth2] {''.git''})"
    by code_simp
  from fields [THEN conjunct1, rule_format, OF this]
  have b: "stem [''R'', ''x'', ''y'', ''b.exe''] = ''b''"
    by simp
  have "\<lparr>app_name = [], app_path = [''steam:'', ''run'', ''7''],
           app_source = steam, app_confidence = 60\<rparr>
          \<in> set (steam_apps_to_discovered (find_installed_steam_apps steam_world))"
    by code_simp
  from fields' [THEN conjunct2, THEN conjunct2, THEN conjunct2, THEN conjunct2, rule_format, OF this]
  obtain lib m n where lm: "lib \<in> set (find_steam_libraries steam_world)"
    "m \<in> set (glob_manifests steam_world lib)" "manifest_appid m = Some n"
    "[''steam:'', ''run'', ''7''] = Path (''steam://run/'' @ show_int n)"
    "parse_acf (w_read steam_world) m ''name'' = Some []"
    by auto
  have ids: "\<forall>lib \<in> set (find_steam_libraries steam_world).
      \<forall>m \<in> set (glob_manifests steam_world lib).
        parse_acf (w_read steam_world) m ''name'' = Some [] \<longrightarrow> manifest_appid m = Some 7"
    by code_simp
  from lm ids have seven: "manifest_appid m = Some 7"
    by blast
  have names: "map app_name (steam_apps_to_discovered (find_installed_steam_apps steam_world))
       = [''Half-Life 2'', ''Steam App 400'', []]"
    by code_simp
  from lm(1,2,5) seven b names show ?thesis
    by blast
qed

text \<open>
  The claim as stated fails for a manifest whose \<^verbatim>\<open>name\<close> line has an empty value: the
  application converted from it has the empty name.
\<close>

theorem empty_name_counterexample:
  "\<lparr>app_name = [], app_path = [''steam:'', ''run'', ''7''],
     app_source = steam, app_confidence = 60\<rparr>
   \<in> set (steam_apps_to_discovered (find_installed_steam_apps steam_world))"
  by code_simp

section \<open>Allow-list filtering and the entry points\<close>

lemma filter_related_apps_empty: "filter_related_apps {} apps = []"
  by (induction apps) (auto simp: Let_def split: option.splits)

lemma filter_steam_loop_empty:
  "filter_steam_loop (JObj []) related apps = Inr related"
  by (induction apps arbitrary: related)
     (auto simp: Let_def json_contains_def split: option.splits)

lemma discover_filesystem_apps_source:
  "a \<in> set (discover_filesystem_apps w include_documents max_depth) \<Longrightarrow>
   app_source a = filesystem"
  by (auto simp: discover_filesystem_apps_def Let_def split: if_splits)

text \<open>
  Claim C2, amended.  With an empty allow-list the authoritative filter keeps no
  platform entry, whatever manifests are installed, and does not fail: this holds for
  \<open>filter_related_apps\<close> and the aggregator \<open>discover_apps\<close> built on it, and for
  \<open>filter_steam_apps\<close> whenever the allow-list document can be read and its
  \<^verbatim>\<open>steam_apps\<close> mapping is absent or has no key.
\<close>

theorem empty_allow_list_fail_closed:
  "filter_related_apps {} apps = []
   \<and> discover_steam_apps {} w True = []
   \<and> filter (\<lambda>a. app_source a = steam) (discover_apps {} w include_documents True) = []
   \<and> (read_file_as_text w (path_str app_list_config_path) = Inr text
      \<and> loads text = Some (JObj kvs)
      \<and> (map_of (rev kvs) ''steam_apps'' = None \<or> map_of (rev kvs) ''steam_apps'' = Some (JObj []))
      \<longrightarrow> filter_steam_apps loads w apps' = Inr [])"
proof (intro conjI impI)
  show "filter_related_apps {} apps = []"
    by (rule filter_related_apps_empty)
  show steam: "discover_steam_apps {} w True = []"
    by (simp add: discover_steam_apps_def Let_def filter_related_apps_empty)
  have "filter (\<lambda>a. app_source a = steam) (discover_filesystem_apps w include_documents 6) = []"
    by (auto simp: filter_empty_conv dest: discover_filesystem_apps_source)
  then show "filter (\<lambda>a. app_source a = steam) (discover_apps {} w include_documents True) = []"
    by (simp add: discover_apps_def steam)
next
  assume a: "read_file_as_text w (path_str app_list_config_path) = Inr text
      \<and> loads text = Some (JObj kvs)
      \<and> (map_of (rev kvs) ''steam_apps'' = None \<or> map_of (rev kvs) ''steam_apps'' = Some (JObj []))"
  then have "json_get (JObj kvs) ''steam_apps'' (JObj []) = Inr (JObj [])"
    by (auto simp: json_get_def)
  with a show "filter_steam_apps loads w apps' = Inr []"
    by (simp add: filter_steam_apps_def json_to_dict_def filter_steam_loop_empty)
qed

theorem empty_allow_list_fail_closed_witness:
  "filter_steam_apps example_loads applist_world
     (steam_apps_to_discovered (find_installed_steam_apps applist_world)) = Inr []
   \<and> length (steam_apps_to_discovered (find_installed_steam_apps applist_world)) = 3"
proof -
  have "read_file_as_text applist_world (path_str app_list_config_path)
          = Inr (''{'' @ quoted ''steam_apps'' @ '': {}}'')
        \<and> example_loads (''{'' @ quoted ''steam_apps'' @ '': {}}'')
          = Some (JObj [(''steam_apps'', JObj [])])
        \<and> (map_of (rev [(''steam_apps'', JObj [])]) ''steam_apps'' = None
           \<or> map_of (rev [(''steam_apps'', JObj [])]) ''steam_apps'' = Some (JObj []))"
    by code_simp
  with empty_allow_list_fail_closed [of _ applist_world _ "''{'' @ quoted ''steam_apps'' @ '': {}}''"
      example_loads "[(''steam_apps'', JObj [])]"
      "steam_apps_to_discovered (find_installed_steam_apps applist_world)"]
  have "filter_steam_apps example_loads applist_world
     (steam_apps_to_discovered (find_installed_steam_apps applist_world)) = Inr []"
    by blast
  moreover have "length (steam_apps_to_discovered (find_installed_steam_apps applist_world)) = 3"
    by code_simp
  ultimately show ?thesis by simp
qed

text \<open>
  The claim as stated fails for an allow-list file that cannot be read: the error of the
  read leaves \<open>filter_steam_apps\<close>, which returns no list.
\<close>

theorem unreadable_allow_list_counterexample:
  "read_file_as_text steam_world (path_str app_list_config_path) = Inl OSError
   \<and> filter_steam_apps example_loads steam_world
       (steam_apps_to_discovered (find_installed_steam_apps steam_world)) = Inl OSError"
  by code_simp

lemma unknown_os_unbound:
  "get_os w = UNKNOWN \<Longrightarrow>
   filesystem_search_roots_applist w = Inl UnboundLocalError
   \<and> discover_filesystem_apps_applist w max_depth = Inl UnboundLocalError
   \<and> discover_apps_applist w = Inl UnboundLocalError"
  by (simp add: filesystem_search_roots_applist_def discover_filesystem_apps_applist_def
      discover_apps_applist_def)

lemma find_steam_libraries_unknown_os: "get_os w = UNKNOWN \<Longrightarrow> find_steam_libraries w = []"
  by (simp add: find_steam_libraries_def find_steam_root_def)

text \<open>
  Claim C1.  On a machine whose operating system is neither Windows nor Linux,
  \<open>filesystem_search_roots\<close> of \<^verbatim>\<open>applist_manager.py\<close> reads a variable no branch has
  assigned, and the error leaves \<open>discover_filesystem_apps\<close> and \<open>discover_apps\<close>: the
  entry points return no list there.
\<close>

theorem unknown_os_raises:
  "get_os unknown_world = UNKNOWN
   \<and> filesystem_search_roots_applist unknown_world = Inl UnboundLocalError
   \<and> discover_filesystem_apps_applist unknown_world 3 = Inl UnboundLocalError
   \<and> discover_apps_applist unknown_world = Inl UnboundLocalError"
  by code_simp

end
